theory Spec2Isabelle
  imports Complex_Main "HOL-Library.Monad_Syntax" "HOL-Library.Multiset" "HOL-Library.AList"
begin

section \<open>Unbounded integers: the calls into bn.js\<close>

text \<open>
  The difficulty functions of \<^verbatim>\<open>src/bc/miner.es6\<close> compute on \<^verbatim>\<open>BN\<close> objects of
  the library bn.js. A \<^verbatim>\<open>BN\<close> is modelled by the integer it holds. Three facts about
  the library decide what the repository's code computes:
  \<^item> \<^verbatim>\<open>new BN(number, base)\<close> with a JavaScript number as its first argument takes
    the value of the number: the base is read for strings only. The constructor asserts
    that the magnitude is below \<open>2^53\<close> and throws otherwise.
  \<^item> \<^verbatim>\<open>a.div(b)\<close> asserts that \<open>b\<close> is not zero, and rounds the quotient toward
    zero: the quotient of the magnitudes, with the sign of the operands.
  \<^item> \<^verbatim>\<open>add\<close>, \<open>sub\<close>, \<open>mul\<close>, \<open>lt\<close>, \<open>gt\<close> are the operations of the integers.
  A thrown assertion is the value \<open>None\<close>.
\<close>

definition BN_number :: "int \<Rightarrow> nat \<Rightarrow> int option" where
  "BN_number number base = (if \<bar>number\<bar> < 2 ^ 53 then Some number else None)"

definition trunc_div :: "int \<Rightarrow> int \<Rightarrow> int" where
  "trunc_div a b = sgn a * sgn b * (\<bar>a\<bar> div \<bar>b\<bar>)"

definition BN_div :: "int \<Rightarrow> int \<Rightarrow> int option" where
  "BN_div a b = (if b = 0 then None else Some (trunc_div a b))"

section \<open>Difficulty of the next block (miner.es6, part 1)\<close>

text \<open>\<^verbatim>\<open>const MINIMUM_DIFFICULTY = new BN(11801972029393, 16)\<close> (line 50).\<close>

definition MINIMUM_DIFFICULTY :: "int option" where
  "MINIMUM_DIFFICULTY = BN_number 11801972029393 16"

text \<open>
  \<^verbatim>\<open>getDiff\<close> (lines 97 to 140), statement by statement. The five arguments are
  JavaScript numbers holding integers.
\<close>

definition getDiff :: "int \<Rightarrow> int \<Rightarrow> int \<Rightarrow> int \<Rightarrow> int \<Rightarrow> int option" where
  "getDiff currentBlockTime previousBlockTime previousDistance minimalDiffulty newBlockCount =
     do {
       bigMinimalDifficulty \<leftarrow> BN_number minimalDiffulty 16;
       bigPreviousBlockTime \<leftarrow> BN_number previousBlockTime 16;
       bigPreviousDistance \<leftarrow> BN_number previousDistance 16;
       bigCurentBlockTime \<leftarrow> BN_number currentBlockTime 16;
       bigMinus99 \<leftarrow> BN_number (- 99) 16;
       big1 \<leftarrow> BN_number 1 16;
       big0 \<leftarrow> BN_number 0 16;
       bigTargetTimeWindow \<leftarrow> BN_number 6 16;
       big4 \<leftarrow> BN_number 4 16;
       bigNewBlockCount \<leftarrow> BN_number newBlockCount 16;
       big148 \<leftarrow> BN_number 148 10;
       let elapsedTime = bigCurentBlockTime - bigPreviousBlockTime;
       let elapsedTimeBonus = elapsedTime + (elapsedTime - big4) * bigNewBlockCount;
       let elapsedTime = (if elapsedTimeBonus > big0 then elapsedTimeBonus else elapsedTime);
       q \<leftarrow> BN_div elapsedTime bigTargetTimeWindow;
       let x = big1 - q;
       let x = (if x < bigMinus99 then bigMinus99 else x);
       y \<leftarrow> BN_div bigPreviousDistance big148;
       let x = x * y;
       let x = x + bigPreviousDistance;
       if x < bigMinimalDifficulty then Some bigMinimalDifficulty else Some x
     }"

text \<open>
  The specification's \<open>get_diff\<close>, in its own words: \<open>elapsed = now - prev_ts\<close>;
  \<open>bonus = elapsed + (elapsed - 4) * new_block_count\<close>, replacing \<open>elapsed\<close> when
  positive; \<open>x = 1 - floor (elapsed / 6)\<close> clamped to \<open>x \<ge> -99\<close>;
  \<open>y = prev_distance / 148\<close>; the maximum of \<open>prev_distance + x * y\<close> and \<open>min_diff\<close>.
  The floor is HOL's \<open>div\<close>. The division of step 4 is called an integer division
  only, and is read as the library's, rounding toward zero.
\<close>

definition get_diff_spec :: "int \<Rightarrow> int \<Rightarrow> int \<Rightarrow> int \<Rightarrow> int \<Rightarrow> int" where
  "get_diff_spec now prev_ts prev_distance min_diff new_block_count =
     (let elapsed = now - prev_ts;
          bonus = elapsed + (elapsed - 4) * new_block_count;
          elapsed = (if bonus > 0 then bonus else elapsed);
          x = max (1 - elapsed div 6) (- 99);
          y = trunc_div prev_distance 148
      in max (prev_distance + x * y) min_diff)"

text \<open>An integer that a JavaScript number holds exactly and that bn.js accepts.\<close>

definition safe_integer :: "int \<Rightarrow> bool" where
  "safe_integer n \<longleftrightarrow> \<bar>n\<bar> < 2 ^ 53"


section \<open>Mining a block (miner.es6, part 2)\<close>

text \<open>
  What a JavaScript function throws. A JavaScript number is a value or \<open>NaN\<close>; the
  infinities do not arise in the functions below.
\<close>

datatype js_error = AssertionError | TypeError | Error string

datatype 'a number = Num 'a | NaN

text \<open>\<^verbatim>\<open>split\<close> (lines 179 to 183): the character codes of a string.\<close>

definition split :: "string \<Rightarrow> nat list" where
  "split t = map (\<lambda>an. of_char an) t"


























section \<open>The multiverse (multiverse.es6)\<close>

text \<open>
  A block of the parent chain, with the fields that \<^verbatim>\<open>addBlock\<close> and the engine read.
  \<^verbatim>\<open>getTotalDistance()\<close> is a decimal string that the code wraps in \<^verbatim>\<open>new BN(...)\<close>
  at every use; the field holds the integer it denotes. \<^verbatim>\<open>getBlockchainHeaders()\<close> is
  an object of lists of child headers, one list for each chain, in the order of its keys.
\<close>

record header =
  header_hash :: string

record block =
  hash :: string
  previousHash :: string
  height :: int
  totalDistance :: int
  blockchainHeaders :: "(string \<times> header list) list"

text \<open>
  The object \<^verbatim>\<open>_blocks\<close> maps a height to the list of the blocks at that height; it
  is an association list read with \<^const>\<open>map_of\<close> and written with
  \<^const>\<open>AList.update\<close>. \<^verbatim>\<open>Object.keys(this._blocks).length\<close> counts its keys.
\<close>

record multiverse =
  mv_blocks :: "(int \<times> block list) list"
  mv_selective :: bool

definition keyCount :: "multiverse \<Rightarrow> nat" where
  "keyCount m = length (remdups (map fst (mv_blocks m)))"

text \<open>The local function of lines 126 to 131.\<close>

definition getAllBlockchainHashes :: "block \<Rightarrow> string list" where
  "getAllBlockchainHashes b =
     fold (\<lambda>(blockchainListKey, headers) acc. acc @ map header_hash headers)
       (blockchainHeaders b) []"

text \<open>
  The reductions of lines 169 to 212 all have the shape
  \<^verbatim>\<open>row.reduce((all, item) => { if (p(item)) { all = true } return all }, false)\<close>.
\<close>

definition reduce_any :: "('a \<Rightarrow> bool) \<Rightarrow> 'a list \<Rightarrow> bool" where
  "reduce_any p row = fold (\<lambda>item all. if p item then True else all) row False"

text \<open>
  Lines 168 to 186: \<open>hasParent\<close>. Reading the first block of the row at line 183 throws
  when the row is empty.
\<close>

definition hasParent :: "multiverse \<Rightarrow> block \<Rightarrow> js_error + bool" where
  "hasParent m b =
     (case map_of (mv_blocks m) (height b - 1) of
        None \<Rightarrow> Inr False
      | Some row \<Rightarrow>
         (let hasParentHash = reduce_any (\<lambda>item. hash item = previousHash b) row;
              hasParentHeight = reduce_any (\<lambda>item. height item = height b - 1) row
          in case row of
               [] \<Rightarrow> Inl TypeError
             | first # _ \<Rightarrow>
                (let parentBlockHeaders = getAllBlockchainHashes first;
                     uniqueParentHeaders = (parentBlockHeaders \<noteq> getAllBlockchainHashes b)
                 in Inr (hasParentHash \<and> hasParentHeight \<and> uniqueParentHeaders))))"

text \<open>Lines 187 to 205: \<open>hasChild\<close>.\<close>

definition hasChild :: "multiverse \<Rightarrow> block \<Rightarrow> js_error + bool" where
  "hasChild m b =
     (case map_of (mv_blocks m) (height b + 1) of
        None \<Rightarrow> Inr False
      | Some row \<Rightarrow>
         (let hasChildHash =
                reduce_any (\<lambda>item. previousHash item = hash b \<and> height item - 1 = height b) row;
              hasChildHeight = reduce_any (\<lambda>item. height item - 1 = height b) row
          in case row of
               [] \<Rightarrow> Inl TypeError
             | first # _ \<Rightarrow>
                (let childBlockHeaders = getAllBlockchainHashes first;
                     uniqueChildHeaders = (childBlockHeaders \<noteq> getAllBlockchainHashes b)
                 in Inr (hasChildHash \<and> hasChildHeight \<and> uniqueChildHeaders))))"

text \<open>Lines 206 to 213: \<open>alreadyInMultiverse\<close>.\<close>

definition alreadyInMultiverse :: "multiverse \<Rightarrow> block \<Rightarrow> bool" where
  "alreadyInMultiverse m b =
     (case map_of (mv_blocks m) (height b) of
        None \<Rightarrow> False
      | Some row \<Rightarrow> reduce_any (\<lambda>item. hash item = hash b) row)"

text \<open>
  Lines 227 to 241 and 247 to 261: the block is pushed on the row of its height, created
  empty when absent, and a row of more than one block is sorted by total distance,
  greatest first; the sort keeps the order of blocks of equal total distance.
\<close>

definition push_sorted :: "multiverse \<Rightarrow> block \<Rightarrow> multiverse" where
  "push_sorted m b =
     (let row = (case map_of (mv_blocks m) (height b) of None \<Rightarrow> [] | Some row \<Rightarrow> row);
          row = row @ [b];
          row = (if length row > 1 then sort_key (\<lambda>a. - totalDistance a) row else row)
      in m\<lparr>mv_blocks := AList.update (height b) row (mv_blocks m)\<rparr>)"

text \<open>
  Lines 150 to 158: with fewer than 7 heights and a multiverse that is not selective, or
  with no height at all, the node is syncing and \<open>force\<close> is set.
\<close>

definition syncing :: "multiverse \<Rightarrow> bool" where
  "syncing m \<longleftrightarrow> (keyCount m < 7 \<and> \<not> mv_selective m) \<or> keyCount m < 1"

text \<open>
  \<^verbatim>\<open>addBlock\<close> (lines 124 to 266): the value returned and the multiverse after the
  call. In the branch of line 225 a block already in the multiverse is not pushed, and
  the function returns \<open>added\<close>, still \<open>false\<close>, at line 265.
\<close>

definition addBlock :: "multiverse \<Rightarrow> block \<Rightarrow> bool \<Rightarrow> js_error + bool \<times> multiverse" where
  "addBlock m b force =
     (let force = (if syncing m then True else force) in
      case hasParent m b of
        Inl e \<Rightarrow> Inl e
      | Inr parent \<Rightarrow>
         (case hasChild m b of
            Inl e \<Rightarrow> Inl e
          | Inr child \<Rightarrow>
             if parent \<or> child then
               if \<not> alreadyInMultiverse m b then Inr (True, push_sorted m b)
               else Inr (False, m)
             else if force \<or> syncing m then Inr (True, push_sorted m b)
             else Inr (False, m)))"

text \<open>The row of a height, empty when the height has no key.\<close>

definition row_at :: "multiverse \<Rightarrow> int \<Rightarrow> block list" where
  "row_at m h = (case map_of (mv_blocks m) h of None \<Rightarrow> [] | Some row \<Rightarrow> row)"

text \<open>
  Every row that \<^verbatim>\<open>addBlock\<close> creates holds a block: the multiverse of the constructor
  has no row, and a row is written only after a push.
\<close>

definition rows_populated :: "multiverse \<Rightarrow> bool" where
  "rows_populated m \<longleftrightarrow> list_all (\<lambda>(h, row). row \<noteq> []) (mv_blocks m)"

text \<open>
  Three blocks in a chain, of heights 1 to 3 and with different child headers, and the
  multiverse that holds the first two.
\<close>

definition block_1 :: block where
  "block_1 = \<lparr>hash = ''p'', previousHash = ''g'', height = 1, totalDistance = 1,
      blockchainHeaders = [(''btcList'', [\<lparr>header_hash = ''x''\<rparr>])]\<rparr>"

definition block_2 :: block where
  "block_2 = \<lparr>hash = ''b'', previousHash = ''p'', height = 2, totalDistance = 2,
      blockchainHeaders = [(''btcList'', [\<lparr>header_hash = ''y''\<rparr>])]\<rparr>"

definition block_3 :: block where
  "block_3 = \<lparr>hash = ''c'', previousHash = ''b'', height = 3, totalDistance = 3,
      blockchainHeaders = [(''btcList'', [\<lparr>header_hash = ''z''\<rparr>])]\<rparr>"



section \<open>Persistence\<close>

text \<open>
  Modelled from the spec: the persistence store, whose module \<^verbatim>\<open>persistence\<close> is not
  among the sources. It is a key-value store with \<^verbatim>\<open>get\<close>, \<^verbatim>\<open>put\<close> and
  \<^verbatim>\<open>del\<close> of single keys, whose errors are an I/O failure and a missing key. The
  keys \<^verbatim>\<open>'bc.block.' + height\<close>, \<^verbatim>\<open>'bc.block.latest'\<close> and
  \<^verbatim>\<open>'bc.block.earliest'\<close> are the values of a datatype. A \<^verbatim>\<open>get\<close> of a missing
  key rejects; a \<^verbatim>\<open>put\<close> or a \<^verbatim>\<open>del\<close> rejects on the keys where the store
  fails, which the two predicates of the record tell, and leaves the data as they are.
\<close>

datatype key = bc_block int | bc_block_latest | bc_block_earliest

record persistence =
  data :: "key \<Rightarrow> block option"
  put_fails :: "key \<Rightarrow> bool"
  del_fails :: "key \<Rightarrow> bool"

definition get :: "persistence \<Rightarrow> key \<Rightarrow> js_error + block" where
  "get p k = (case data p k of None \<Rightarrow> Inl (Error ''NotFound'') | Some b \<Rightarrow> Inr b)"

definition put :: "persistence \<Rightarrow> key \<Rightarrow> block \<Rightarrow> js_error + persistence" where
  "put p k b = (if put_fails p k then Inl (Error ''put failed'')
                else Inr (p\<lparr>data := (data p)(k \<mapsto> b)\<rparr>))"

definition del :: "persistence \<Rightarrow> key \<Rightarrow> js_error + persistence" where
  "del p k = (if del_fails p k then Inl (Error ''del failed'')
              else Inr (p\<lparr>data := (data p)(k := None)\<rparr>))"

text \<open>How a promise settles, and the values the functions below resolve with.\<close>

datatype 'a promise = Resolved 'a | Rejected js_error

datatype resolution = Undefined | Boolean bool | Stored block

section \<open>The engine: storing a block at its height\<close>

text \<open>
  The message of the topic \<^verbatim>\<open>state.block.height\<close>: a block and the optional flag
  \<^verbatim>\<open>force\<close>, \<open>None\<close> when undefined.
\<close>

record msg =
  msg_data :: block
  msg_force :: "bool option"

text \<open>
  Line 366 reads
  \<^verbatim>\<open>new BN(prev.getTotalDistance()).lt(new BN(block.getTotalDistance()) === true)\<close>:
  the closing parenthesis of \<^verbatim>\<open>lt\<close> comes after \<^verbatim>\<open>=== true\<close>, so that the argument
  of \<^verbatim>\<open>lt\<close> is the comparison of an object with \<^verbatim>\<open>true\<close>, which is
  \<^verbatim>\<open>false\<close>. On the boolean, whose property \<^verbatim>\<open>negative\<close> is undefined, the
  comparison of bn.js answers "greater" for a receiver that is not negative, so that
  \<^verbatim>\<open>lt\<close> is false; for a negative receiver it goes on to read the words of its
  argument and throws.
\<close>

definition BN_lt_false :: "int \<Rightarrow> js_error + bool" where
  "BN_lt_false a = (if 0 \<le> a then Inr False else Inl TypeError)"

text \<open>
  The \<^verbatim>\<open>catch\<close> of lines 372 to 376: the block is put at its height and a warning
  is logged. A failing \<^verbatim>\<open>put\<close> rejects the promise of \<^verbatim>\<open>storeHeight\<close>.
\<close>

definition store_orphan :: "persistence \<Rightarrow> block \<Rightarrow> resolution promise \<times> persistence \<times> string list" where
  "store_orphan p b =
     (case put p (bc_block (height b)) b of
        Inl err \<Rightarrow> (Rejected err, p, [])
      | Inr p' \<Rightarrow> (Resolved (Boolean True), p', ['' stored orphan '']))"

text \<open>
  \<^verbatim>\<open>storeHeight\<close> (lines 347 to 378): how the promise settles, the store afterwards and
  the warnings logged. The \<^verbatim>\<open>return Promise.reject(...)\<close> of line 370 is not awaited:
  it leaves the \<^verbatim>\<open>try\<close> statement without entering its \<^verbatim>\<open>catch\<close>, and the promise
  of \<^verbatim>\<open>storeHeight\<close> rejects. What the \<^verbatim>\<open>catch\<close> handles is a rejection of the
  awaited \<^verbatim>\<open>get\<close> or \<^verbatim>\<open>put\<close> and a throw of line 366.
\<close>

definition storeHeight :: "persistence \<Rightarrow> msg \<Rightarrow> resolution promise \<times> persistence \<times> string list" where
  "storeHeight p m =
     (let b = msg_data m in
      if height b < 2 then (Resolved Undefined, p, [])
      else if msg_force m = Some True then
        (case put p (bc_block (height b)) b of
           Inr p' \<Rightarrow> (Resolved (Stored b), p', [])
         | Inl err \<Rightarrow> (Rejected err, p, [''unable to store block '']))
      else
        (case get p (bc_block (height b - 1)) of
           Inl err \<Rightarrow> store_orphan p b
         | Inr prev \<Rightarrow>
            if hash prev = previousHash b then
              (case BN_lt_false (totalDistance prev) of
                 Inl err \<Rightarrow> store_orphan p b
               | Inr lt \<Rightarrow>
                  if lt then
                    (case put p (bc_block (height b)) b of
                       Inr p' \<Rightarrow> (Resolved (Boolean True), p', [])
                     | Inl err \<Rightarrow> store_orphan p b)
                  else (Rejected (Error ''block state did not match''), p, []))
            else (Rejected (Error ''block state did not match''), p, [])))"

text \<open>A store that holds the block of height 1 and never fails.\<close>

definition store_1 :: persistence where
  "store_1 = \<lparr>data = Map.empty(bc_block 1 \<mapsto> block_1), put_fails = (\<lambda>k. False),
      del_fails = (\<lambda>k. False)\<rparr>"

section \<open>The block pool (blockpool.es6)\<close>

text \<open>
  The fields that the constructor assigns (lines 24 to 32). \<^verbatim>\<open>_checkpoint\<close> starts as
  \<^verbatim>\<open>false\<close>, its type admits a block, and \<^verbatim>\<open>purge\<close> compares it with
  \<^verbatim>\<open>undefined\<close> too.
\<close>

datatype checkpoint = checkpoint_undefined | checkpoint_false | checkpoint_block block

record blockpool =
  bp_cache :: "block list"
  bp_checkpoint :: checkpoint
  bp_persistence :: persistence
  bp_syncEnabled :: bool
  bp_maximumHeight :: "int option"
  bp_genesisBlock :: block

text \<open>
  The class declares the getters \<^verbatim>\<open>checkpoint\<close> and \<^verbatim>\<open>pubsub\<close> and no other
  member besides its methods; the genesis block is kept in the field
  \<^verbatim>\<open>_genesisBlock\<close>. The property \<^verbatim>\<open>genesisBlock\<close>, read as \<^verbatim>\<open>self.genesisBlock\<close>
  at lines 87 and 156, is therefore undefined on every block pool.
\<close>

definition genesisBlock :: "blockpool \<Rightarrow> block option" where
  "genesisBlock self = None"

text \<open>
  \<^verbatim>\<open>addBlock\<close> of the block pool (lines 77 to 170), up to the statement that ends
  every call. Line 84 rejects when the checkpoint is both \<^verbatim>\<open>undefined\<close> and
  \<^verbatim>\<open>false\<close>. Line 87 calls \<^verbatim>\<open>getHash\<close> on \<^verbatim>\<open>self.genesisBlock\<close>: on
  \<^verbatim>\<open>undefined\<close> this throws a \<^verbatim>\<open>TypeError\<close>, and the promise of the
  \<^verbatim>\<open>async\<close> function rejects with it. Had the property a value, the call would
  resolve with \<^verbatim>\<open>true\<close> for the genesis block and go on to the \<^verbatim>\<open>try\<close> statement
  of line 90 for another one, which is the parameter \<open>try_statement\<close>.
\<close>

definition addBlock_pool ::
  "(blockpool \<Rightarrow> block \<Rightarrow> resolution promise \<times> blockpool) \<Rightarrow> blockpool \<Rightarrow> block
   \<Rightarrow> resolution promise \<times> blockpool" where
  "addBlock_pool try_statement self b =
     (if bp_checkpoint self = checkpoint_undefined \<and> bp_checkpoint self = checkpoint_false
      then (Rejected (Error ''no checkpoint set for blockpool''), self)
      else case genesisBlock self of
             None \<Rightarrow> (Rejected TypeError, self)
           | Some genesis \<Rightarrow>
              if hash b = hash genesis then (Resolved (Boolean True), self)
              else try_statement self b)"

text \<open>
  The heights \<open>start\<close> and \<open>end\<close> of \<^verbatim>\<open>purgeFrom\<close> are JavaScript numbers, and
  \<^verbatim>\<open>start - 1\<close> is a subtraction of doubles: the double nearest to the exact
  difference, the one of even mantissa when two are equally near. Between \<open>2^53\<close> and
  \<open>2^54\<close> the doubles are the even integers, between \<open>2^54\<close> and \<open>2^55\<close> the
  multiples of 4, and so on: \<open>ulp a\<close> is the distance between the doubles around an
  integer of magnitude \<open>a\<close>, and \<open>double_of_int n\<close> the double nearest to the integer
  \<open>n\<close>.
\<close>

function ulp :: "int \<Rightarrow> int" where
  "ulp a = (if a < 2 ^ 53 then 1 else 2 * ulp (a div 2))"
  by pat_completeness auto
termination
  by (relation "measure nat") auto

declare ulp.simps [simp del]

definition double_of_int :: "int \<Rightarrow> int" where
  "double_of_int n =
     (let a = \<bar>n\<bar>; u = ulp a; q = a div u; r = a mod u;
          m = (if 2 * r < u \<or> (2 * r = u \<and> even q) then q else q + 1)
      in sgn n * (m * u))"

text \<open>
  \<^verbatim>\<open>purgeFrom\<close> (lines 171 to 185). The guard of line 172 is tested first in every
  call, before \<^verbatim>\<open>start === end\<close>. A deletion that fails is caught and the recursion
  goes on all the same. The recursion need not end: the result is \<open>None\<close> when the
  promise never settles.
\<close>

partial_function (option) purgeFrom ::
  "persistence \<Rightarrow> int \<Rightarrow> int \<Rightarrow> (resolution promise \<times> persistence) option" where
  "purgeFrom p start end' =
     (if end' < 1 \<or> start \<le> 1 then Some (Rejected (Error ''cannot purge below height 2''), p)
      else if start = end' then Some (Resolved (Boolean True), p)
      else purgeFrom (case del p (bc_block start) of Inr p' \<Rightarrow> p' | Inl err \<Rightarrow> p)
             (double_of_int (start - 1)) end')"

text \<open>
  \<^verbatim>\<open>purge\<close> (lines 186 to 212), called with a block, with \<^verbatim>\<open>undefined\<close> or with
  \<^verbatim>\<open>false\<close>: how the promise settles and the block pool afterwards. Both branches
  read \<^verbatim>\<open>bc.block.latest\<close> first, and a rejection of that \<^verbatim>\<open>get\<close> rejects the
  promise, through the \<^verbatim>\<open>catch\<close> of line 202 in the first branch. Both end with
  \<^verbatim>\<open>purgeFrom(height, 1)\<close> (lines 200 and 210); the first has assigned
  \<^verbatim>\<open>_checkpoint\<close> before.
\<close>

definition purge :: "blockpool \<Rightarrow> checkpoint \<Rightarrow> (resolution promise \<times> blockpool) option" where
  "purge self c =
     (case get (bp_persistence self) bc_block_latest of
        Inl err \<Rightarrow> Some (Rejected err, self)
      | Inr latest \<Rightarrow>
         (case c of
            checkpoint_block cb \<Rightarrow>
              (let h = double_of_int (height cb - 1) in
               if h < 2 then Some (Rejected (Error ''checkpoint set to genesis height''), self)
               else if h > height latest
               then Some (Rejected (Error ''cannot purge after latest block''), self)
               else map_option (\<lambda>(r, p). (r, self\<lparr>bp_checkpoint := c, bp_persistence := p\<rparr>))
                      (purgeFrom (bp_persistence self) h 1))
          | _ \<Rightarrow>
              (let h = double_of_int (height latest - 1) in
               if h < 2 then Some (Rejected (Error ''checkpoint set to genesis height''), self)
               else map_option (\<lambda>(r, p). (r, self\<lparr>bp_persistence := p\<rparr>))
                      (purgeFrom (bp_persistence self) h 1))))"

text \<open>
  The store after the keys \<^verbatim>\<open>bc.block.<i>\<close> with \<open>lo \<le> i \<le> hi\<close> have been deleted,
  but for those on which the deletion fails.
\<close>

definition purged :: "persistence \<Rightarrow> int \<Rightarrow> int \<Rightarrow> persistence" where
  "purged p lo hi =
     p\<lparr>data := (\<lambda>k. case k of
                      bc_block i \<Rightarrow> if lo \<le> i \<and> i \<le> hi \<and> \<not> del_fails p k then None else data p k
                    | _ \<Rightarrow> data p k)\<rparr>"

text \<open>A store that holds the three example blocks and never fails.\<close>

definition store_123 :: persistence where
  "store_123 = \<lparr>data = Map.empty(bc_block 1 \<mapsto> block_1, bc_block 2 \<mapsto> block_2,
        bc_block 3 \<mapsto> block_3),
      put_fails = (\<lambda>k. False), del_fails = (\<lambda>k. False)\<rparr>"

text \<open>A block pool on that store, whose latest block is the one of height 3.\<close>

definition pool_123 :: blockpool where
  "pool_123 = \<lparr>bp_cache = [], bp_checkpoint = checkpoint_false,
      bp_persistence = store_123\<lparr>data := (data store_123)(bc_block_latest \<mapsto> block_3)\<rparr>,
      bp_syncEnabled = True, bp_maximumHeight = None, bp_genesisBlock = block_1\<rparr>"

text \<open>
  A block of height 2 whose previous hash is not the hash of the example block of
  height 1, in a message without \<^verbatim>\<open>force\<close>.
\<close>

definition orphan_msg :: msg where
  "orphan_msg = \<lparr>msg_data = block_2\<lparr>previousHash := ''q''\<rparr>, msg_force = None\<rparr>"

section \<open>The engine: collecting rovered blocks\<close>

text \<open>
  The fields of the engine that \<^verbatim>\<open>collectBlock\<close> reads or writes. \<^verbatim>\<open>_collectedBlocks\<close>
  is an object from chain names to numbers, an association list; the constructor
  (lines 162 to 199) enters 0 for each known rover. Of a rovered block the function reads
  the name of its chain.
\<close>

record engine =
  knownRovers :: "string list"
  collectedBlocks :: "(string \<times> nat number) list"
  canMine :: bool
  peerIsSyncing :: bool
  peerIsResyncing :: bool
  rawBlock :: "string list"

definition constructor :: "string list \<Rightarrow> engine" where
  "constructor rovers =
     \<lparr>knownRovers = rovers,
      collectedBlocks = fold (\<lambda>roverName collected. AList.update roverName (Num 0) collected) rovers [],
      canMine = False, peerIsSyncing = False, peerIsResyncing = False, rawBlock = []\<rparr>"

text \<open>
  \<^verbatim>\<open>this._collectedBlocks[chain] += 1\<close> (line 538): a chain without an entry reads as
  \<^verbatim>\<open>undefined\<close>, and \<^verbatim>\<open>undefined + 1\<close> is \<open>NaN\<close>.
\<close>

fun increment :: "nat number option \<Rightarrow> nat number" where
  "increment None = NaN"
| "increment (Some NaN) = NaN"
| "increment (Some (Num n)) = Num (n + 1)"

text \<open>\<^verbatim>\<open>numCollected >= 1\<close> (line 541), false on \<open>NaN\<close>.\<close>

fun at_least_1 :: "nat number \<Rightarrow> bool" where
  "at_least_1 NaN = False"
| "at_least_1 (Num n) = (1 \<le> n)"

text \<open>
  \<^verbatim>\<open>collectBlock\<close> (lines 536 to 580): the engine after the call, and whether the call
  went on to \<^verbatim>\<open>startMining\<close>, which writes none of the fields above.
\<close>

definition collectBlock :: "engine \<Rightarrow> string list \<Rightarrow> string \<Rightarrow> bool \<times> engine" where
  "collectBlock self rovers blockchain =
     (let collected = AList.update blockchain
                        (increment (map_of (collectedBlocks self) blockchain)) (collectedBlocks self);
          self = self\<lparr>collectedBlocks := collected\<rparr>;
          self = (if \<not> canMine self \<and> list_all at_least_1 (map snd (collectedBlocks self))
                  then self\<lparr>canMine := True\<rparr> else self)
      in if canMine self \<and> \<not> peerIsSyncing self \<and> set (knownRovers self) = set rovers
         then (True, self\<lparr>rawBlock := rawBlock self @ [blockchain]\<rparr>)
         else (False, self))"

text \<open>
  What the engine processes: a rovered block (\<^verbatim>\<open>collectBlock\<close>), the topics
  \<^verbatim>\<open>update.checkpoint.start\<close>, \<^verbatim>\<open>state.resync.failed\<close> and \<^verbatim>\<open>state.checkpoint.end\<close>
  (lines 312 to 329), \<^verbatim>\<open>receiveSyncPeriod\<close> (line 676), the setter of \<^verbatim>\<open>rawBlock\<close>
  (line 449), and the other methods, which assign none of the fields of the record:
  \<^verbatim>\<open>_canMine\<close> is assigned at lines 181 and 542 only.
\<close>

datatype event =
    CollectBlock "string list" string
  | CheckpointStart
  | ResyncFailed
  | CheckpointEnd
  | ReceiveSyncPeriod bool
  | SetRawBlock "string list"
  | Other

fun step :: "event \<Rightarrow> engine \<Rightarrow> engine" where
  "step (CollectBlock rovers blockchain) self = snd (collectBlock self rovers blockchain)"
| "step CheckpointStart self = self\<lparr>peerIsResyncing := True\<rparr>"
| "step ResyncFailed self = self\<lparr>peerIsResyncing := True\<rparr>"
| "step CheckpointEnd self = self\<lparr>peerIsResyncing := False\<rparr>"
| "step (ReceiveSyncPeriod b) self = self\<lparr>peerIsSyncing := b\<rparr>"
| "step (SetRawBlock blocks) self = self\<lparr>rawBlock := blocks\<rparr>"
| "step Other self = self"

text \<open>The engine after a sequence of events, first event first.\<close>

definition run :: "event list \<Rightarrow> engine \<Rightarrow> engine" where
  "run events self = fold step events self"

text \<open>The counter of a chain is a number and at least 1.\<close>

definition collected_once :: "engine \<Rightarrow> string \<Rightarrow> bool" where
  "collected_once self chain =
     (case map_of (collectedBlocks self) chain of None \<Rightarrow> False | Some n \<Rightarrow> at_least_1 n)"

text \<open>Every rovered block among the events is of a known chain.\<close>

fun of_known_chain :: "string list \<Rightarrow> event \<Rightarrow> bool" where
  "of_known_chain known (CollectBlock rovers blockchain) = (blockchain \<in> set known)"
| "of_known_chain known _ = True"

text \<open>
  What holds of the engine between events, for the known rovers \<open>known\<close>: the counters
  are those of the known rovers, each a number, and the engine can mine when all of
  them are at least 1.
\<close>

definition engine_inv :: "string list \<Rightarrow> engine \<Rightarrow> bool" where
  "engine_inv known self \<longleftrightarrow>
     knownRovers self = known
     \<and> distinct (map fst (collectedBlocks self))
     \<and> fst ` set (collectedBlocks self) = set known
     \<and> (\<forall>chain. map_of (collectedBlocks self) chain \<noteq> Some NaN)
     \<and> (known \<noteq> [] \<and> list_all at_least_1 (map snd (collectedBlocks self)) \<longrightarrow> canMine self)"


section \<open>Properties of the difficulty functions\<close>

lemma BN_number_safe: "safe_integer n \<Longrightarrow> BN_number n b = Some n"
  by (simp add: BN_number_def safe_integer_def)

lemma BN_number_small:
  "BN_number (- 99) 16 = Some (- 99)" "BN_number 1 16 = Some 1" "BN_number 0 16 = Some 0"
  "BN_number 6 16 = Some 6" "BN_number 4 16 = Some 4" "BN_number 148 10 = Some 148"
  by (simp_all add: BN_number_def)

lemma trunc_div_nonneg: "0 \<le> a \<Longrightarrow> 0 < b \<Longrightarrow> trunc_div a b = a div b"
  by (cases "a = 0") (simp_all add: trunc_div_def)

text \<open>What \<^const>\<open>getDiff\<close> returns on safe integers, with the library's division.\<close>

lemma getDiff_safe:
  assumes "safe_integer now" "safe_integer prev_ts" "safe_integer prev_distance"
    "safe_integer min_diff" "safe_integer new_block_count"
  shows "getDiff now prev_ts prev_distance min_diff new_block_count =
    Some (let elapsed = now - prev_ts;
              bonus = elapsed + (elapsed - 4) * new_block_count;
              elapsed = (if bonus > 0 then bonus else elapsed);
              x = max (1 - trunc_div elapsed 6) (- 99);
              y = trunc_div prev_distance 148
          in max (prev_distance + x * y) min_diff)"
  using assms
  by (simp add: getDiff_def BN_number_safe BN_number_small BN_div_def Let_def max_def)

text \<open>
  C1, as amended. For all integers \<open>now\<close>, \<open>prev_ts\<close>, \<open>prev_distance\<close>, \<open>min_diff\<close>,
  \<open>new_block_count\<close> of magnitude below \<open>2^53\<close> with \<open>prev_ts \<le> now\<close>, \<open>getDiff\<close>
  returns the value the specification describes: the elapsed time with its bonus, one
  minus the floor of a sixth of it, clamped at \<open>-99\<close>, times the 148th part of the
  previous distance, added to the previous distance, and at least \<open>min_diff\<close>.
\<close>

theorem getDiff_computes_spec:
  assumes "safe_integer now" "safe_integer prev_ts" "safe_integer prev_distance"
    "safe_integer min_diff" "safe_integer new_block_count" "prev_ts \<le> now"
  shows "getDiff now prev_ts prev_distance min_diff new_block_count =
    Some (get_diff_spec now prev_ts prev_distance min_diff new_block_count)"
proof -
  define elapsed where "elapsed = now - prev_ts"
  define bonus where "bonus = elapsed + (elapsed - 4) * new_block_count"
  have e: "0 \<le> elapsed" using assms(6) by (simp add: elapsed_def)
  have code: "getDiff now prev_ts prev_distance min_diff new_block_count =
    Some (max (prev_distance
      + max (1 - trunc_div (if bonus > 0 then bonus else elapsed) 6) (- 99)
        * trunc_div prev_distance 148) min_diff)"
    using getDiff_safe [OF assms(1-5)] by (simp add: Let_def elapsed_def bonus_def)
  have spec: "get_diff_spec now prev_ts prev_distance min_diff new_block_count =
    max (prev_distance
      + max (1 - (if bonus > 0 then bonus else elapsed) div 6) (- 99)
        * trunc_div prev_distance 148) min_diff"
    by (simp add: get_diff_spec_def Let_def elapsed_def bonus_def)
  have "trunc_div (if bonus > 0 then bonus else elapsed) 6
      = (if bonus > 0 then bonus else elapsed) div 6"
    using e by (intro trunc_div_nonneg) simp_all
  then show ?thesis
    unfolding code spec by (rule arg_cong [where f = "\<lambda>q. Some (max (prev_distance + max (1 - q) (- 99) * trunc_div prev_distance 148) min_diff)"])
qed

theorem getDiff_computes_spec_witness:
  "safe_integer 12 \<and> safe_integer 0 \<and> safe_integer 1480 \<and> safe_integer 100 \<and> safe_integer 1
   \<and> (0::int) \<le> 12 \<and> getDiff 12 0 1480 100 1 = Some 1460
   \<and> get_diff_spec 12 0 1480 100 1 = 1460"
proof -
  have s: "safe_integer 12" "safe_integer 0" "safe_integer 1480" "safe_integer 100"
    "safe_integer 1"
    by (simp_all add: safe_integer_def)
  have v: "get_diff_spec 12 0 1480 100 1 = 1460"
    by (simp add: get_diff_spec_def trunc_div_def Let_def)
  have le: "(0::int) \<le> 12" by simp
  show ?thesis
    using getDiff_computes_spec [OF s le] s v by simp
qed

text \<open>
  The claim as written fails at two kinds of input. With the previous block one second
  in the future the library's quotient of \<open>-1\<close> by \<open>6\<close> is \<open>0\<close>, its floor is \<open>-1\<close>.
  At \<open>2^53\<close> the constructor of the unbounded integer throws.
\<close>

theorem getDiff_spec_counterexample:
  "getDiff 0 1 148 0 0 = Some 149 \<and> get_diff_spec 0 1 148 0 0 = 150
   \<and> getDiff 0 0 (2 ^ 53) 0 0 = None"
  by (simp add: getDiff_def get_diff_spec_def BN_number_def BN_div_def trunc_div_def Let_def)

text \<open>
  C4, as amended. The minimum-difficulty constant is the decimal number
  \<open>11801972029393\<close>: the literal is a number, whose value the constructor takes
  whatever the base.
\<close>

theorem MINIMUM_DIFFICULTY_value: "MINIMUM_DIFFICULTY = Some 11801972029393"
  by (simp add: MINIMUM_DIFFICULTY_def BN_number_def)

theorem MINIMUM_DIFFICULTY_counterexample:
  "MINIMUM_DIFFICULTY \<noteq> Some 0x11801972029393 \<and> MINIMUM_DIFFICULTY \<noteq> Some 4925904907162515"
  by (simp add: MINIMUM_DIFFICULTY_def BN_number_def)

section \<open>Properties of the distance and of the mining loop\<close>






















section \<open>Properties of the multiverse\<close>







lemma row_at_push_sorted_other:
  "h \<noteq> height b \<Longrightarrow> row_at (push_sorted m b) h = row_at m h"
  by (simp add: row_at_def push_sorted_def Let_def update_conv')




lemma list_all_update:
  "list_all (\<lambda>(h, row). row \<noteq> []) al \<Longrightarrow> v \<noteq> []
   \<Longrightarrow> list_all (\<lambda>(h, row). row \<noteq> []) (AList.update k v al)"
  by (induction al) auto

lemma sort_key_Nil_iff: "sort_key f xs = [] \<longleftrightarrow> xs = []"
  by (metis length_sort length_0_conv)

lemma rows_populated_push_sorted: "rows_populated m \<Longrightarrow> rows_populated (push_sorted m b)"
  by (simp add: rows_populated_def push_sorted_def Let_def list_all_update sort_key_Nil_iff)

lemma rows_populated_addBlock:
  "rows_populated m \<Longrightarrow> addBlock m b force = Inr (added, m') \<Longrightarrow> rows_populated m'"
  by (auto simp: addBlock_def Let_def rows_populated_push_sorted split: sum.splits if_splits)






section \<open>Properties of the stores: the block pool and the engine\<close>

lemma ulp_small: "a < 2 ^ 53 \<Longrightarrow> ulp a = 1"
  by (subst ulp.simps) simp

lemma double_of_int_safe: "\<bar>n\<bar> < 2 ^ 53 \<Longrightarrow> double_of_int n = n"
  by (simp add: double_of_int_def ulp_small Let_def mult_sgn_abs)

text \<open>
  At \<open>2^53 + 4\<close> the subtraction of 1 returns its first operand: the exact difference
  lies midway between the doubles \<open>2^53 + 2\<close> and \<open>2^53 + 4\<close>, and the second has the
  even mantissa.
\<close>

lemma ulp_example_1: "ulp 4503599627370497 = 1" by (subst ulp.simps) simp
lemma ulp_example_2: "ulp 9007199254740995 = 2" by (subst ulp.simps) (simp add: ulp_example_1)
lemma double_of_int_stuck: "double_of_int (9007199254740996 - 1) = 9007199254740996"
  by (simp add: double_of_int_def ulp_example_2 Let_def)

lemma purged_empty: "hi < lo \<Longrightarrow> purged p lo hi = p"
  by (rule persistence.equality) (auto simp: purged_def fun_eq_iff split: key.splits)

lemma purged_step_deleted:
  "lo \<le> start \<Longrightarrow> \<not> del_fails p (bc_block start)
   \<Longrightarrow> purged (p\<lparr>data := (data p)(bc_block start := None)\<rparr>) lo (start - 1) = purged p lo start"
  by (rule persistence.equality) (auto simp: purged_def fun_eq_iff split: key.splits)

lemma purged_step_failed:
  "del_fails p (bc_block start) \<Longrightarrow> purged p lo (start - 1) = purged p lo start"
  by (rule persistence.equality) (auto simp: purged_def fun_eq_iff split: key.splits)

lemma purgeFrom_step:
  assumes "1 \<le> i" "i < 2 ^ 53" "1 \<le> end'" "i + 1 \<noteq> end'" "lo \<le> i + 1"
    and "\<And>q. purgeFrom q i end' = Some (r, purged q lo i)"
  shows "purgeFrom p (i + 1) end' = Some (r, purged p lo (i + 1))"
proof -
  have d: "double_of_int (i + 1 - 1) = i"
    using assms(1,2) by (simp add: double_of_int_safe)
  show ?thesis
  proof (cases "del_fails p (bc_block (i + 1))")
    case True
    then have "purgeFrom p (i + 1) end' = purgeFrom p i end'"
      using assms(1,3,4) d by (subst purgeFrom.simps) (simp add: del_def)
    with True show ?thesis
      using purged_step_failed [of p "i + 1" lo] by (simp add: assms(6))
  next
    case False
    then have "purgeFrom p (i + 1) end'
        = purgeFrom (p\<lparr>data := (data p)(bc_block (i + 1) := None)\<rparr>) i end'"
      using assms(1,3,4) d by (subst purgeFrom.simps) (simp add: del_def)
    with False assms(5) show ?thesis
      using purged_step_deleted [of lo "i + 1" p] by (simp add: assms(6))
  qed
qed

lemma purgeFrom_resolves:
  assumes "end' \<le> start" "2 \<le> end'" "start \<le> 2 ^ 53"
  shows "purgeFrom p start end' = Some (Resolved (Boolean True), purged p (end' + 1) start)"
  using assms
proof (induction start arbitrary: p rule: int_ge_induct)
  case base
  then show ?case by (subst purgeFrom.simps) (simp add: purged_empty)
next
  case (step i)
  show ?case
    by (rule purgeFrom_step) (use step in auto)
qed

lemma purgeFrom_rejects_late:
  assumes "1 \<le> start" "1 \<le> end'" "end' = 1 \<or> start < end'" "start \<le> 2 ^ 53"
  shows "purgeFrom p start end'
    = Some (Rejected (Error ''cannot purge below height 2''), purged p 2 start)"
  using assms
proof (induction start arbitrary: p rule: int_ge_induct)
  case base
  then show ?case by (subst purgeFrom.simps) (simp add: purged_empty)
next
  case (step i)
  show ?case
    by (rule purgeFrom_step) (use step in auto)
qed

text \<open>
  What \<^verbatim>\<open>purgeFrom\<close> does from a height of at most \<open>2^53\<close>, where the subtraction
  is exact. It rejects at once when \<open>end < 1\<close> or \<open>start \<le> 1\<close>. When
  \<open>2 \<le> end \<le> start\<close> it deletes the heights from \<open>start\<close> down to \<open>end + 1\<close>, going
  on after a deletion that fails, and resolves. In the other cases, among them
  \<open>end = 1\<close>, it deletes the heights from \<open>start\<close> down to 2 and then rejects.
\<close>

lemma purgeFrom_settles:
  assumes "start \<le> 2 ^ 53"
  shows "purgeFrom p start end' =
     Some (if end' < 1 \<or> start \<le> 1 then (Rejected (Error ''cannot purge below height 2''), p)
           else if 2 \<le> end' \<and> end' \<le> start
                then (Resolved (Boolean True), purged p (end' + 1) start)
                else (Rejected (Error ''cannot purge below height 2''), purged p 2 start))"
proof (cases "end' < 1 \<or> start \<le> 1")
  case True
  then show ?thesis by (subst purgeFrom.simps) simp
next
  case False
  show ?thesis
  proof (cases "2 \<le> end' \<and> end' \<le> start")
    case True
    with False assms show ?thesis by (simp add: purgeFrom_resolves)
  next
    case n: False
    with False have "1 \<le> start" "1 \<le> end'" "end' = 1 \<or> start < end'" by auto
    then show ?thesis using False n assms by (simp add: purgeFrom_rejects_late)
  qed
qed

text \<open>
  From the height \<open>2^53 + 4\<close> the recursion calls itself with the same height for
  ever, and the promise never settles.
\<close>

lemma purgeFrom_stuck_aux:
  assumes "purgeFrom p start end' = Some y"
  shows "\<not> (start = 9007199254740996 \<and> end' = 2)"
proof (rule purgeFrom.raw_induct
    [where P = "\<lambda>p start end' y. \<not> (start = 9007199254740996 \<and> end' = 2)", OF _ assms])
  fix f :: "persistence \<Rightarrow> int \<Rightarrow> int \<Rightarrow> (resolution promise \<times> persistence) option"
    and p start end' y
  assume IH: "\<And>p start end' y. f p start end' = Some y
      \<Longrightarrow> \<not> (start = 9007199254740996 \<and> end' = 2)"
  assume body: "(if end' < 1 \<or> start \<le> 1
      then Some (Rejected (Error ''cannot purge below height 2''), p)
      else if start = end' then Some (Resolved (Boolean True), p)
           else f (case del p (bc_block start) of Inl err \<Rightarrow> p | Inr p' \<Rightarrow> p')
                 (double_of_int (start - 1)) end') = Some y"
  show "\<not> (start = 9007199254740996 \<and> end' = 2)"
  proof
    assume s: "start = 9007199254740996 \<and> end' = 2"
    with body have "f (case del p (bc_block start) of Inl err \<Rightarrow> p | Inr p' \<Rightarrow> p')
        9007199254740996 2 = Some y"
      using double_of_int_stuck by simp
    from IH [OF this] show False by simp
  qed
qed

lemma purgeFrom_never_settles: "purgeFrom p 9007199254740996 2 = None"
  using purgeFrom_stuck_aux [of p 9007199254740996 2]
  by (cases "purgeFrom p 9007199254740996 2") auto

text \<open>
  With \<open>end = 1\<close> the function never resolves, whatever the height and the store:
  when \<open>start\<close> reaches 1 the guard of line 172 rejects. \<^verbatim>\<open>purge\<close>, which calls it
  with \<open>end = 1\<close> on both of its paths, therefore never resolves either.
\<close>

lemma purgeFrom_end_1_aux:
  assumes "purgeFrom p start end' = Some y"
  shows "end' = 1 \<longrightarrow> fst y = Rejected (Error ''cannot purge below height 2'')"
proof (rule purgeFrom.raw_induct
    [where P = "\<lambda>p start end' y. end' = 1 \<longrightarrow> fst y = Rejected (Error ''cannot purge below height 2'')",
     OF _ assms])
  fix f :: "persistence \<Rightarrow> int \<Rightarrow> int \<Rightarrow> (resolution promise \<times> persistence) option"
    and p start end' y
  assume IH: "\<And>p start end' y. f p start end' = Some y
      \<Longrightarrow> end' = 1 \<longrightarrow> fst y = Rejected (Error ''cannot purge below height 2'')"
  assume body: "(if end' < 1 \<or> start \<le> 1
      then Some (Rejected (Error ''cannot purge below height 2''), p)
      else if start = end' then Some (Resolved (Boolean True), p)
           else f (case del p (bc_block start) of Inl err \<Rightarrow> p | Inr p' \<Rightarrow> p')
                 (double_of_int (start - 1)) end') = Some y"
  show "end' = 1 \<longrightarrow> fst y = Rejected (Error ''cannot purge below height 2'')"
  proof (cases "end' < 1 \<or> start \<le> 1")
    case True
    with body show ?thesis by auto
  next
    case False
    show ?thesis
    proof
      assume e: "end' = 1"
      with False have "start \<noteq> end'" by simp
      with body False have "f (case del p (bc_block start) of Inl err \<Rightarrow> p | Inr p' \<Rightarrow> p')
          (double_of_int (start - 1)) end' = Some y"
        by simp
      from IH [OF this] e show "fst y = Rejected (Error ''cannot purge below height 2'')" by simp
    qed
  qed
qed

lemma purgeFrom_end_1:
  "purgeFrom p start 1 = Some (r, p') \<Longrightarrow> r = Rejected (Error ''cannot purge below height 2'')"
  using purgeFrom_end_1_aux [of p start 1 "(r, p')"] by simp

lemma purge_never_resolves: "purge self c \<noteq> Some (Resolved r, self')"
  by (auto simp: purge_def Let_def split: sum.splits checkpoint.splits dest: purgeFrom_end_1)

lemma purge_example:
  "map_option fst (purge pool_123 checkpoint_undefined) = Some (Rejected (Error ''cannot purge below height 2''))"
  by (simp add: purge_def pool_123_def get_def store_123_def block_3_def double_of_int_safe purgeFrom.simps del_def)


text \<open>
  C10, on the code. \<open>purge_from(3, 1)\<close>, the form in which \<^verbatim>\<open>purge\<close> calls the
  function at lines 200 and 210, on a store that holds the heights 1 to 3: the heights 3
  and 2 are deleted, \<open>start\<close> reaches \<open>end\<close>, and the promise rejects with "cannot
  purge below height 2" instead of resolving, since the guard of line 172 is tested
  before \<^verbatim>\<open>start === end\<close>.
\<close>

theorem purgeFrom_rejects_at_end:
  "purgeFrom store_123 3 1 = Some (Rejected (Error ''cannot purge below height 2''), store_1)"
  by (simp add: purgeFrom.simps del_def store_123_def store_1_def fun_eq_iff double_of_int_safe)

text \<open>
  \<^verbatim>\<open>storeHeight\<close> without \<^verbatim>\<open>force\<close>, on a block of height 2 or more whose
  predecessor is stored. When the hashes differ, or the total distance of the predecessor
  is not negative, the promise rejects and nothing is stored or logged: the \<^verbatim>\<open>put\<close>
  of line 367 is reached for no such block.
\<close>

lemma storeHeight_predecessor_stored:
  assumes "2 \<le> height (msg_data m)" "msg_force m \<noteq> Some True"
    and "data p (bc_block (height (msg_data m) - 1)) = Some prev"
    and "hash prev \<noteq> previousHash (msg_data m) \<or> 0 \<le> totalDistance prev"
  shows "storeHeight p m = (Rejected (Error ''block state did not match''), p, [])"
  using assms by (auto simp: storeHeight_def get_def BN_lt_false_def Let_def)

text \<open>When the predecessor is not stored, the block is stored as an orphan.\<close>

lemma storeHeight_predecessor_missing:
  assumes "2 \<le> height (msg_data m)" "msg_force m \<noteq> Some True"
    and "data p (bc_block (height (msg_data m) - 1)) = None"
    and "\<not> put_fails p (bc_block (height (msg_data m)))"
  shows "storeHeight p m = (Resolved (Boolean True),
    p\<lparr>data := (data p)(bc_block (height (msg_data m)) \<mapsto> msg_data m)\<rparr>, ['' stored orphan ''])"
  using assms by (auto simp: storeHeight_def get_def store_orphan_def put_def Let_def)

text \<open>
  C2, on the code. The block of height 2 of \<^const>\<open>orphan_msg\<close> has a previous hash
  that is not the hash of the stored block of height 1. \<^verbatim>\<open>storeHeight\<close> rejects with
  "block state did not match"; the block is not stored and no warning is logged.
\<close>

theorem storeHeight_mismatch_rejects:
  "height (msg_data orphan_msg) = 2
   \<and> data store_1 (bc_block 1) = Some block_1
   \<and> hash block_1 \<noteq> previousHash (msg_data orphan_msg)
   \<and> storeHeight store_1 orphan_msg = (Rejected (Error ''block state did not match''), store_1, [])"
  by (simp add: storeHeight_def store_1_def orphan_msg_def block_2_def block_1_def get_def)

text \<open>
  Every call of \<^verbatim>\<open>addBlock\<close> of the block pool rejects with the \<^verbatim>\<open>TypeError\<close> of
  line 87, whatever the checkpoint: the test of line 84 holds for no checkpoint.
\<close>

lemma addBlock_pool_TypeError: "addBlock_pool try_statement self b = (Rejected TypeError, self)"
  by (cases "bp_checkpoint self") (simp_all add: addBlock_pool_def genesisBlock_def)

text \<open>
  C8. \<open>add(block)\<close> of the block pool rejects with an error whenever no checkpoint is
  set, the field being \<^verbatim>\<open>false\<close> or \<^verbatim>\<open>undefined\<close>, for every block; the pool is
  left as it was.
\<close>

theorem addBlock_pool_no_checkpoint:
  assumes "bp_checkpoint self = checkpoint_false \<or> bp_checkpoint self = checkpoint_undefined"
  shows "\<exists>e. addBlock_pool try_statement self b = (Rejected e, self)"
  using assms by (auto simp: addBlock_pool_def genesisBlock_def)

theorem addBlock_pool_no_checkpoint_witness:
  "bp_checkpoint \<lparr>bp_cache = [], bp_checkpoint = checkpoint_false, bp_persistence = store_1,
       bp_syncEnabled = True, bp_maximumHeight = None, bp_genesisBlock = block_1\<rparr> = checkpoint_false
   \<and> (\<exists>e. addBlock_pool (\<lambda>self b. (Resolved (Boolean True), self))
         \<lparr>bp_cache = [], bp_checkpoint = checkpoint_false, bp_persistence = store_1,
          bp_syncEnabled = True, bp_maximumHeight = None, bp_genesisBlock = block_1\<rparr> block_2
       = (Rejected e, \<lparr>bp_cache = [], bp_checkpoint = checkpoint_false, bp_persistence = store_1,
          bp_syncEnabled = True, bp_maximumHeight = None, bp_genesisBlock = block_1\<rparr>))"
proof -
  let ?pool = "\<lparr>bp_cache = [], bp_checkpoint = checkpoint_false, bp_persistence = store_1,
       bp_syncEnabled = True, bp_maximumHeight = None, bp_genesisBlock = block_1\<rparr>"
  have h: "bp_checkpoint ?pool = checkpoint_false \<or> bp_checkpoint ?pool = checkpoint_undefined"
    by simp
  from addBlock_pool_no_checkpoint [OF h, of "\<lambda>self b. (Resolved (Boolean True), self)" block_2]
  show ?thesis by simp
qed

lemma list_all_values:
  "distinct (map fst al) \<Longrightarrow>
   list_all P (map snd al) \<longleftrightarrow> (\<forall>k v. map_of al k = Some v \<longrightarrow> P v)"
  by (auto simp: list_all_iff)

lemma fold_update_zero:
  assumes "distinct (map fst acc)" "\<forall>k v. map_of acc k = Some v \<longrightarrow> v = Num 0"
  shows "distinct (map fst (fold (\<lambda>r c. AList.update r (Num 0) c) rovers acc))
    \<and> fst ` set (fold (\<lambda>r c. AList.update r (Num 0) c) rovers acc) = set rovers \<union> fst ` set acc
    \<and> (\<forall>k v. map_of (fold (\<lambda>r c. AList.update r (Num 0) c) rovers acc) k = Some v \<longrightarrow> v = Num 0)"
  using assms
proof (induction rovers arbitrary: acc)
  case Nil
  then show ?case by simp
next
  case (Cons r rovers)
  have d: "distinct (map fst (AList.update r (Num 0) acc))"
    using Cons.prems(1) by (rule distinct_update)
  have z: "\<forall>k v. map_of (AList.update r (Num 0) acc) k = Some v \<longrightarrow> v = Num 0"
    using Cons.prems(2) by (simp add: update_conv')
  from Cons.IH [OF d z] show ?case by (auto simp: dom_update)
qed

lemma constructor_inv: "rovers \<noteq> [] \<Longrightarrow> engine_inv rovers (constructor rovers)"
proof -
  assume ne: "rovers \<noteq> []"
  let ?al = "fold (\<lambda>r c. AList.update r (Num (0::nat)) c) rovers ([]::(string \<times> nat number) list)"
  have "distinct (map fst ?al) \<and> fst ` set ?al = set rovers \<union> fst ` set ([]::(string \<times> nat number) list)
    \<and> (\<forall>k v. map_of ?al k = Some v \<longrightarrow> v = Num 0)"
    by (rule fold_update_zero) simp_all
  then have f: "distinct (map fst ?al)" "fst ` set ?al = set rovers"
    "\<forall>k v. map_of ?al k = Some v \<longrightarrow> v = Num 0"
    by simp_all
  obtain r where "r \<in> set rovers" using ne by (cases rovers) auto
  with f(2) obtain v where "(r, v) \<in> set ?al" by force
  with f(1) have "map_of ?al r = Some v" by simp
  with f(3) have "map_of ?al r = Some (Num 0)" by blast
  then have "(r, Num 0) \<in> set ?al" by (rule map_of_SomeD)
  then have "\<not> list_all at_least_1 (map snd ?al)"
    by (force simp: list_all_iff)
  moreover have "\<forall>chain. map_of ?al chain \<noteq> Some NaN" using f(3) by auto
  ultimately show ?thesis using f(1,2) by (simp add: engine_inv_def constructor_def)
qed

lemma collectBlock_fields:
  "knownRovers (snd (collectBlock self rovers blockchain)) = knownRovers self"
  "collectedBlocks (snd (collectBlock self rovers blockchain))
     = AList.update blockchain (increment (map_of (collectedBlocks self) blockchain))
         (collectedBlocks self)"
  "canMine (snd (collectBlock self rovers blockchain))
     \<longleftrightarrow> canMine self
         \<or> list_all at_least_1 (map snd (collectedBlocks (snd (collectBlock self rovers blockchain))))"
  by (simp_all add: collectBlock_def Let_def)

lemma collectBlock_inv:
  assumes "engine_inv known self" "blockchain \<in> set known"
  shows "engine_inv known (snd (collectBlock self rovers blockchain))"
proof -
  let ?al = "collectedBlocks self"
  let ?self' = "snd (collectBlock self rovers blockchain)"
  from assms(1) have
    i: "knownRovers self = known" "distinct (map fst ?al)" "fst ` set ?al = set known"
      "\<forall>chain. map_of ?al chain \<noteq> Some NaN"
    by (simp_all add: engine_inv_def)
  from i(3) assms(2) obtain v where "(blockchain, v) \<in> set ?al" by force
  with i(2) have "map_of ?al blockchain = Some v" by simp
  moreover with i(4) have "v \<noteq> NaN" by auto
  ultimately obtain n where n: "map_of ?al blockchain = Some (Num n)" by (cases v) auto
  have al': "collectedBlocks ?self' = AList.update blockchain (Num (n + 1)) ?al"
    by (simp add: collectBlock_fields(2) n)
  have "knownRovers ?self' = known" by (simp add: collectBlock_fields(1) i(1))
  moreover have "distinct (map fst (collectedBlocks ?self'))"
    unfolding al' using i(2) by (rule distinct_update)
  moreover have "fst ` set (collectedBlocks ?self') = set known"
    unfolding al' using i(3) assms(2) by (auto simp: dom_update)
  moreover have "\<forall>chain. map_of (collectedBlocks ?self') chain \<noteq> Some NaN"
    unfolding al' using i(4) by (simp add: update_conv')
  moreover have "list_all at_least_1 (map snd (collectedBlocks ?self')) \<longrightarrow> canMine ?self'"
    using collectBlock_fields(3) [of self rovers blockchain] by blast
  ultimately show ?thesis unfolding engine_inv_def by blast
qed

lemma step_inv:
  "engine_inv known self \<Longrightarrow> of_known_chain known ev \<Longrightarrow> engine_inv known (step ev self)"
  by (cases ev) (simp_all add: collectBlock_inv, simp_all add: engine_inv_def)

lemma run_inv:
  "engine_inv known self \<Longrightarrow> list_all (of_known_chain known) events
   \<Longrightarrow> engine_inv known (run events self)"
  unfolding run_def by (induction events arbitrary: self) (simp_all add: step_inv)

lemma collectBlock_canMine: "canMine self \<Longrightarrow> canMine (snd (collectBlock self rovers blockchain))"
  by (simp add: collectBlock_def Let_def)

lemma step_canMine: "canMine self \<Longrightarrow> canMine (step ev self)"
  by (cases ev) (simp_all add: collectBlock_canMine)

lemma run_canMine: "canMine self \<Longrightarrow> canMine (run events self)"
  unfolding run_def by (induction events arbitrary: self) (simp_all add: step_canMine)

lemma engine_inv_canMine:
  assumes "engine_inv known self" "known \<noteq> []" "\<forall>chain\<in>set known. collected_once self chain"
  shows "canMine self"
proof -
  let ?al = "collectedBlocks self"
  have "at_least_1 v" if "map_of ?al k = Some v" for k v
  proof -
    from that have "k \<in> fst ` set ?al" by (force dest: map_of_SomeD)
    with assms(1) have "k \<in> set known" by (simp add: engine_inv_def)
    with assms(3) that show ?thesis by (auto simp: collected_once_def)
  qed
  then have "list_all at_least_1 (map snd ?al)"
    using assms(1) by (simp add: engine_inv_def list_all_values)
  with assms(1,2) show ?thesis by (simp add: engine_inv_def)
qed

text \<open>
  C7, as amended. In an engine constructed with at least one known rover, after any
  sequence of events whose rovered blocks are all of known chains: when the counter of
  every known chain is at least 1, \<open>can_mine\<close> is true; and once \<open>can_mine\<close> is true it
  stays true after any further events, whatever they are.
\<close>

theorem canMine_set_and_kept:
  assumes "rovers \<noteq> []" "list_all (of_known_chain rovers) events"
  shows "((\<forall>chain\<in>set rovers. collected_once (run events (constructor rovers)) chain)
            \<longrightarrow> canMine (run events (constructor rovers)))
    \<and> (canMine (run events (constructor rovers))
            \<longrightarrow> canMine (run later (run events (constructor rovers))))"
proof -
  have "engine_inv rovers (run events (constructor rovers))"
    using assms by (simp add: constructor_inv run_inv)
  then show ?thesis
    using assms(1) by (auto intro: engine_inv_canMine run_canMine)
qed


theorem canMine_set_and_kept_witness:
  "[''btc'', ''eth''] \<noteq> []
   \<and> list_all (of_known_chain [''btc'', ''eth''])
         [CollectBlock [''btc'', ''eth''] ''btc'', CheckpointStart, CollectBlock [''btc'', ''eth''] ''eth'']
   \<and> collected_once (run [CollectBlock [''btc'', ''eth''] ''btc'', CheckpointStart,
         CollectBlock [''btc'', ''eth''] ''eth''] (constructor [''btc'', ''eth''])) ''btc''
   \<and> collected_once (run [CollectBlock [''btc'', ''eth''] ''btc'', CheckpointStart,
         CollectBlock [''btc'', ''eth''] ''eth''] (constructor [''btc'', ''eth''])) ''eth''
   \<and> canMine (run [CollectBlock [''btc'', ''eth''] ''btc'', CheckpointStart,
         CollectBlock [''btc'', ''eth''] ''eth''] (constructor [''btc'', ''eth'']))
   \<and> canMine (run [ReceiveSyncPeriod True, CollectBlock [''btc''] ''btc'', Other]
         (run [CollectBlock [''btc'', ''eth''] ''btc'', CheckpointStart,
               CollectBlock [''btc'', ''eth''] ''eth''] (constructor [''btc'', ''eth''])))"
proof -
  let ?rovers = "[''btc'', ''eth'']"
  let ?events = "[CollectBlock ?rovers ''btc'', CheckpointStart, CollectBlock ?rovers ''eth'']"
  let ?later = "[ReceiveSyncPeriod True, CollectBlock [''btc''] ''btc'', Other]"
  have h: "?rovers \<noteq> []" "list_all (of_known_chain ?rovers) ?events"
    by simp_all
  have c: "collected_once (run ?events (constructor ?rovers)) ''btc''"
    "collected_once (run ?events (constructor ?rovers)) ''eth''"
    by (simp_all add: run_def constructor_def collectBlock_def collected_once_def)
  from canMine_set_and_kept [OF h, of ?later] h c show ?thesis by simp
qed

text \<open>
  The claim as written fails after a rovered block of a chain that is not a known rover:
  it enters \<open>NaN\<close> among the counters, and the test of line 541 fails from then on
  although the counter of the known chain is 1. It fails as well in an engine without a
  known rover, where no counter is below 1 and \<open>can_mine\<close> is false.
\<close>

theorem canMine_counterexample:
  "collected_once (run [CollectBlock [''btc''] ''xyz'', CollectBlock [''btc''] ''btc'']
      (constructor [''btc''])) ''btc''
   \<and> \<not> canMine (run [CollectBlock [''btc''] ''xyz'', CollectBlock [''btc''] ''btc'']
      (constructor [''btc'']))
   \<and> knownRovers (run [Other] (constructor [])) = []
   \<and> \<not> canMine (run [Other] (constructor []))"
  by (simp add: run_def constructor_def collectBlock_def collected_once_def)

end
